theory Spec2Isabelle
  imports Main
begin

text \<open>
  A model of the AssemblyAI client of \<^verbatim>\<open>client/assemblyai/client.go\<close>: the status check,
  the response decoder \<^verbatim>\<open>getData\<close>, and the operations \<^verbatim>\<open>UploadLocalFile\<close>,
  \<^verbatim>\<open>Transcript\<close> and \<^verbatim>\<open>PollTranscript\<close>, with the properties their specification
  states. Strings are byte strings, as in Go.
\<close>

section \<open>Status validation: \<open>isValidStatus\<close> (client.go, lines 46-50)\<close>

text \<open>
  The source compiles the regular expression \<^verbatim>\<open>^2..\<close> and matches it against
  \<^verbatim>\<open>strconv.Itoa(statusCode)\<close>. Both library functions are modelled on bytes:
  the decimal string of an integer holds ASCII digits and possibly a leading minus sign
  only, so a byte and a code point are the same thing there.
\<close>

subsection \<open>\<open>strconv.Itoa\<close>\<close>

definition digit_char :: "nat \<Rightarrow> char" where
  "digit_char d = ''0123456789'' ! d"

fun digits10 :: "nat \<Rightarrow> string" where
  "digits10 n = (if n < 10 then [digit_char n] else digits10 (n div 10) @ [digit_char (n mod 10)])"

declare digits10.simps [simp del]

definition Itoa :: "int \<Rightarrow> string" where
  "Itoa i = (if i < 0 then CHR ''-'' # digits10 (nat (- i)) else digits10 (nat i))"

subsection \<open>The fragment of \<open>regexp\<close> the source uses\<close>

text \<open>
  A pattern is a sequence of items, possibly anchored at the start of the text by \<^verbatim>\<open>^\<close>.
  \<^verbatim>\<open>.\<close> matches any character but a newline (no \<^verbatim>\<open>s\<close> flag is set).
  \<^verbatim>\<open>MatchString\<close> reports whether the text CONTAINS a match: nothing anchors the
  end of the match, so text may follow it.
\<close>

datatype re_item = Lit char | AnyChar

record regexp =
  anchored :: bool
  items :: "re_item list"

fun match_here :: "re_item list \<Rightarrow> string \<Rightarrow> bool" where
  "match_here [] s = True"
| "match_here (i # is) [] = False"
| "match_here (Lit c # is) (x # xs) = (x = c \<and> match_here is xs)"
| "match_here (AnyChar # is) (x # xs) = (x \<noteq> CHR 0x0A \<and> match_here is xs)"

fun match_anywhere :: "re_item list \<Rightarrow> string \<Rightarrow> bool" where
  "match_anywhere is [] = match_here is []"
| "match_anywhere is (x # xs) = (match_here is (x # xs) \<or> match_anywhere is xs)"

definition MatchString :: "regexp \<Rightarrow> string \<Rightarrow> bool" where
  "MatchString re s = (if anchored re then match_here (items re) s else match_anywhere (items re) s)"

definition okStatusRegex :: regexp where
  "okStatusRegex = \<lparr>anchored = True, items = [Lit (CHR ''2''), AnyChar, AnyChar]\<rparr>"

definition isValidStatus :: "int \<Rightarrow> bool" where
  "isValidStatus statusCode = MatchString okStatusRegex (Itoa statusCode)"

section \<open>Errors\<close>

text \<open>
  A Go \<^verbatim>\<open>error\<close> is modelled by where it was made: \<open>ErrorString\<close> is a value of
  \<^verbatim>\<open>errors.New\<close> or \<^verbatim>\<open>fmt.Errorf\<close> with its message, \<open>LibraryError\<close> an error handed
  back by \<^verbatim>\<open>net/http\<close> or \<^verbatim>\<open>io\<close> (request construction, transport, reading the body),
  and the last two are the errors of \<^verbatim>\<open>json.Unmarshal\<close>: a syntax error of the text, and
  a JSON value (its kind) that does not fit the Go type of a field (its name).
\<close>

datatype error =
    ErrorString string
  | LibraryError string
  | JsonSyntaxError string
  | JsonUnmarshalTypeError string string

section \<open>\<open>fmt.Errorf\<close> called with a format and no operands\<close>

text \<open>
  \<^verbatim>\<open>getData\<close> calls \<^verbatim>\<open>fmt.Errorf(string(body))\<close>: the body is the FORMAT, and there are
  no operands. The model follows \<^verbatim>\<open>doPrintf\<close> of package \<^verbatim>\<open>fmt\<close> for that case
  (\<^verbatim>\<open>len(a) = 0\<close>): text up to a percent sign is copied, then flags, an argument index
  \<^verbatim>\<open>[n]\<close>, a width, a precision and a verb are scanned. With no operands no verb can
  be served, so every directive but \<^verbatim>\<open>%%\<close> writes a diagnostic. The state of the scan is
  the unread format \<open>rest\<close>, the output \<open>buf\<close>, and the two flags of the printer.
\<close>

record pp =
  rest :: string
  buf :: string
  afterIndex :: bool
  goodArgNum :: bool

definition is_flag :: "char \<Rightarrow> bool" where
  "is_flag c = (c \<in> set ''#0+- '')"

definition is_digit :: "char \<Rightarrow> bool" where
  "is_digit c = (48 \<le> (of_char c :: nat) \<and> (of_char c :: nat) \<le> 57)"

definition tooLarge :: "nat \<Rightarrow> bool" where
  "tooLarge x = (1000000 < x)"

primrec parsenum_loop :: "string \<Rightarrow> nat \<Rightarrow> bool \<Rightarrow> nat \<times> bool \<times> string" where
  "parsenum_loop [] num isnum = (num, isnum, [])"
| "parsenum_loop (c # cs) num isnum =
     (if is_digit c
      then (if tooLarge num then (0, False, [])
            else parsenum_loop cs (num * 10 + (of_char c - 48)) True)
      else (num, isnum, c # cs))"

definition parsenum :: "string \<Rightarrow> nat \<times> bool \<times> string" where
  "parsenum s = parsenum_loop s 0 False"

definition parseArgNumber :: "string \<Rightarrow> int \<times> nat \<times> bool" where
  "parseArgNumber format =
     (if length format < 3 then (0, 1, False)
      else let inner = takeWhile (\<lambda>c. c \<noteq> CHR '']'') (tl format) in
        if length inner = length (tl format) then (0, 1, False)
        else (case parsenum inner of (width, ok, unread) \<Rightarrow>
               if \<not> ok \<or> unread \<noteq> [] then (0, length inner + 2, False)
               else (int width - 1, length inner + 2, True)))"

definition argNumber :: "nat \<Rightarrow> pp \<Rightarrow> pp" where
  "argNumber numArgs p =
     (case rest p of
        [] \<Rightarrow> p\<lparr>afterIndex := False\<rparr>
      | c # cs \<Rightarrow>
          if c \<noteq> CHR ''['' then p\<lparr>afterIndex := False\<rparr>
          else (case parseArgNumber (rest p) of (index, wid, ok) \<Rightarrow>
                 if ok \<and> 0 \<le> index \<and> index < int numArgs
                 then p\<lparr>rest := drop wid (rest p), afterIndex := True\<rparr>
                 else p\<lparr>rest := drop wid (rest p), afterIndex := ok, goodArgNum := False\<rparr>))"

definition scan_width :: "pp \<Rightarrow> pp" where
  "scan_width p =
     (case rest p of
        [] \<Rightarrow> p
      | c # cs \<Rightarrow>
          if c = CHR ''*''
          then p\<lparr>rest := cs, buf := buf p @ ''%!(BADWIDTH)'', afterIndex := False\<rparr>
          else (case parsenum (rest p) of (num, present, unread) \<Rightarrow>
                 p\<lparr>rest := unread, goodArgNum := goodArgNum p \<and> \<not> (afterIndex p \<and> present)\<rparr>))"

definition scan_precision :: "pp \<Rightarrow> pp" where
  "scan_precision p =
     (case rest p of
        [] \<Rightarrow> p
      | c # cs \<Rightarrow>
          if c = CHR ''.''
          then (let q = argNumber 0 (p\<lparr>rest := cs, goodArgNum := goodArgNum p \<and> \<not> afterIndex p\<rparr>) in
                case rest q of
                  [] \<Rightarrow> q
                | d # ds \<Rightarrow>
                    if d = CHR ''*''
                    then q\<lparr>rest := ds, buf := buf q @ ''%!(BADPREC)'', afterIndex := False\<rparr>
                    else (case parsenum (rest q) of (num, present, unread) \<Rightarrow> q\<lparr>rest := unread\<rparr>))
          else p)"

definition scan_index :: "pp \<Rightarrow> pp" where
  "scan_index p = (if \<not> afterIndex p then argNumber 0 p else p)"

text \<open>
  The verb is one code point, decoded as \<^verbatim>\<open>utf8.DecodeRuneInString\<close> does: \<open>rune_size\<close>
  is the length of a well-formed UTF-8 sequence at the head of the text, and \<open>None\<close>
  where there is none (then the verb is U+FFFD and one byte is consumed).
\<close>

definition continuation :: "char \<Rightarrow> bool" where
  "continuation c = (0x80 \<le> (of_char c :: nat) \<and> (of_char c :: nat) \<le> 0xBF)"

definition accept :: "nat \<Rightarrow> nat \<Rightarrow> nat \<Rightarrow> string \<Rightarrow> bool" where
  "accept lo hi n t =
     (case t of
        [] \<Rightarrow> False
      | c # cs \<Rightarrow> lo \<le> of_char c \<and> of_char c \<le> hi \<and> n \<le> length cs \<and> list_all continuation (take n cs))"

definition rune_size :: "string \<Rightarrow> nat option" where
  "rune_size s =
     (case s of
        [] \<Rightarrow> None
      | c # t \<Rightarrow>
          let x = (of_char c :: nat) in
          if x < 0x80 then Some 1
          else if 0xC2 \<le> x \<and> x \<le> 0xDF then (if accept 0x80 0xBF 0 t then Some 2 else None)
          else if x = 0xE0 then (if accept 0xA0 0xBF 1 t then Some 3 else None)
          else if x = 0xED then (if accept 0x80 0x9F 1 t then Some 3 else None)
          else if 0xE1 \<le> x \<and> x \<le> 0xEF then (if accept 0x80 0xBF 1 t then Some 3 else None)
          else if x = 0xF0 then (if accept 0x90 0xBF 2 t then Some 4 else None)
          else if 0xF1 \<le> x \<and> x \<le> 0xF3 then (if accept 0x80 0xBF 2 t then Some 4 else None)
          else if x = 0xF4 then (if accept 0x80 0x8F 2 t then Some 4 else None)
          else None)"

definition RuneError_bytes :: string where
  "RuneError_bytes = [CHR 0xEF, CHR 0xBF, CHR 0xBD]"

definition scan_verb :: "pp \<Rightarrow> pp" where
  "scan_verb p =
     (case rest p of
        [] \<Rightarrow> p\<lparr>buf := buf p @ ''%!(NOVERB)''\<rparr>
      | c # cs \<Rightarrow>
          let size = (case rune_size (rest p) of None \<Rightarrow> 1 | Some n \<Rightarrow> n);
              verb = (case rune_size (rest p) of None \<Rightarrow> RuneError_bytes | Some n \<Rightarrow> take n (rest p));
              q = p\<lparr>rest := drop size (rest p)\<rparr>
          in if verb = ''%'' then q\<lparr>buf := buf q @ ''%''\<rparr>
             else if \<not> goodArgNum q then q\<lparr>buf := buf q @ ''%!'' @ verb @ ''(BADINDEX)''\<rparr>
             else q\<lparr>buf := buf q @ ''%!'' @ verb @ ''(MISSING)''\<rparr>)"

definition directive :: "string \<Rightarrow> pp" where
  "directive s =
     scan_verb (scan_index (scan_precision (scan_width (argNumber 0
       \<lparr>rest = dropWhile is_flag s, buf = [], afterIndex = False, goodArgNum = True\<rparr>))))"

lemma parsenum_loop_length: "length (snd (snd (parsenum_loop s n b))) \<le> length s"
  by (induction s arbitrary: n b) (auto simp: le_SucI)

lemma parsenum_length: "parsenum s = (n, b, r) \<Longrightarrow> length r \<le> length s"
  using parsenum_loop_length [of s 0 False] by (simp add: parsenum_def)

lemma argNumber_length: "length (rest (argNumber k p)) \<le> length (rest p)"
  by (auto simp: argNumber_def split: list.splits prod.splits)

lemma scan_width_length: "length (rest (scan_width p)) \<le> length (rest p)"
  by (auto simp: scan_width_def split: list.splits prod.splits dest: parsenum_length)

lemma scan_precision_length: "length (rest (scan_precision p)) \<le> length (rest p)"
proof (cases "rest p")
  case Nil
  then show ?thesis by (simp add: scan_precision_def)
next
  case (Cons c cs)
  let ?q = "argNumber 0 (p\<lparr>rest := cs, goodArgNum := goodArgNum p \<and> \<not> afterIndex p\<rparr>)"
  have q: "length (rest ?q) \<le> length cs"
    using argNumber_length [of 0 "p\<lparr>rest := cs, goodArgNum := goodArgNum p \<and> \<not> afterIndex p\<rparr>"] by simp
  show ?thesis
  proof (cases "c = CHR ''.''")
    case False
    with Cons show ?thesis by (simp add: scan_precision_def)
  next
    case True
    with Cons q show ?thesis
      by (auto simp: scan_precision_def Let_def split: list.splits prod.splits dest!: parsenum_length)
  qed
qed

lemma scan_index_length: "length (rest (scan_index p)) \<le> length (rest p)"
  using argNumber_length [of 0 p] by (simp add: scan_index_def)

lemma scan_verb_length: "length (rest (scan_verb p)) \<le> length (rest p)"
  by (auto simp: scan_verb_def Let_def split: list.splits)

lemma directive_length: "length (rest (directive s)) \<le> length s"
proof -
  let ?p0 = "\<lparr>rest = dropWhile is_flag s, buf = [], afterIndex = False, goodArgNum = True\<rparr>"
  let ?p1 = "argNumber 0 ?p0"
  let ?p2 = "scan_width ?p1"
  let ?p3 = "scan_precision ?p2"
  let ?p4 = "scan_index ?p3"
  have "length (rest ?p0) \<le> length s" by (simp add: length_dropWhile_le)
  moreover have "length (rest ?p1) \<le> length (rest ?p0)" by (rule argNumber_length)
  moreover have "length (rest ?p2) \<le> length (rest ?p1)" by (rule scan_width_length)
  moreover have "length (rest ?p3) \<le> length (rest ?p2)" by (rule scan_precision_length)
  moreover have "length (rest ?p4) \<le> length (rest ?p3)" by (rule scan_index_length)
  moreover have "length (rest (scan_verb ?p4)) \<le> length (rest ?p4)" by (rule scan_verb_length)
  ultimately show ?thesis unfolding directive_def by linarith
qed

function doPrintf :: "string \<Rightarrow> string" where
  "doPrintf [] = []"
| "doPrintf (c # cs) =
     (if c = CHR ''%'' then buf (directive cs) @ doPrintf (rest (directive cs))
      else c # doPrintf cs)"
  by pat_completeness auto
termination
  by (relation "measure length") (auto simp: directive_length less_Suc_eq_le)

definition Errorf :: "string \<Rightarrow> error" where
  "Errorf format = ErrorString (doPrintf format)"

section \<open>\<open>json.Unmarshal\<close> into the response structs\<close>

text \<open>
  The text-level JSON parser of \<^verbatim>\<open>encoding/json\<close> is a parameter of the model (see
  \<open>json_parse\<close> below): it maps a body to a JSON value or to a syntax error. What
  \<^verbatim>\<open>Unmarshal\<close> then does with the value is fixed by the struct declarations of the
  source (string fields with \<^verbatim>\<open>json:"..."\<close> tags) and modelled here:
  \<^item> \<^verbatim>\<open>null\<close> is a no-op and leaves the struct at its zero value;
  \<^item> an object is read member by member, in order: a key selects the field whose tag
    it equals, or else equals under case folding; other keys are skipped; a string is
    stored, \<^verbatim>\<open>null\<close> is skipped, any other value is a type error, of which the first
    one is kept while decoding goes on;
  \<^item> any other value is a type error.
\<close>

datatype json =
    JNull
  | JBool bool
  | JNumber string
  | JString string
  | JArray "json list"
  | JObject "(string \<times> json) list"

fun kind :: "json \<Rightarrow> string" where
  "kind JNull = ''null''"
| "kind (JBool b) = ''bool''"
| "kind (JNumber n) = ''number''"
| "kind (JString s) = ''string''"
| "kind (JArray xs) = ''array''"
| "kind (JObject kvs) = ''object''"

text \<open>
  Case folding of a key, as far as it decides equality with the fold of an ASCII tag:
  ASCII letters go to upper case, and the two code points outside ASCII whose fold is an
  ASCII letter, U+017F (long s, bytes C5 BF) and U+212A (Kelvin sign, bytes E2 84 AA), go
  to \<open>S\<close> and \<open>K\<close>. Every other byte stays, and is no ASCII letter.
\<close>

definition ascii_upper :: "char \<Rightarrow> char" where
  "ascii_upper c =
     (case map_of (zip ''abcdefghijklmnopqrstuvwxyz'' ''ABCDEFGHIJKLMNOPQRSTUVWXYZ'') c of
        None \<Rightarrow> c
      | Some u \<Rightarrow> u)"

fun foldName :: "string \<Rightarrow> string" where
  "foldName [] = []"
| "foldName (c # cs) =
     (if c = CHR 0xC5 \<and> take 1 cs = [CHR 0xBF] then CHR ''S'' # foldName (drop 1 cs)
      else if c = CHR 0xE2 \<and> take 2 cs = [CHR 0x84, CHR 0xAA] then CHR ''K'' # foldName (drop 2 cs)
      else ascii_upper c # foldName cs)"

definition find_field :: "string list \<Rightarrow> string \<Rightarrow> string option" where
  "find_field tags key =
     (if key \<in> set tags then Some key else find (\<lambda>t. foldName t = foldName key) tags)"

definition saveError :: "error option \<Rightarrow> error \<Rightarrow> error option" where
  "saveError saved e = (case saved of None \<Rightarrow> Some e | Some first \<Rightarrow> Some first)"

fun object_members ::
  "string list \<Rightarrow> (string \<times> json) list \<Rightarrow> (string \<Rightarrow> string) \<Rightarrow> error option \<Rightarrow>
   (string \<Rightarrow> string) \<times> error option" where
  "object_members tags [] vals saved = (vals, saved)"
| "object_members tags ((key, v) # kvs) vals saved =
     (case find_field tags key of
        None \<Rightarrow> object_members tags kvs vals saved
      | Some tag \<Rightarrow>
          (case v of
             JString s \<Rightarrow> object_members tags kvs (vals(tag := s)) saved
           | JNull \<Rightarrow> object_members tags kvs vals saved
           | _ \<Rightarrow> object_members tags kvs vals
                  (saveError saved (JsonUnmarshalTypeError (kind v) tag))))"

definition decode_struct :: "string list \<Rightarrow> json \<Rightarrow> error + (string \<Rightarrow> string)" where
  "decode_struct tags j =
     (case j of
        JObject kvs \<Rightarrow>
          (case object_members tags kvs (\<lambda>tag. []) None of
             (vals, None) \<Rightarrow> Inr vals
           | (vals, Some e) \<Rightarrow> Inl e)
      | JNull \<Rightarrow> Inr (\<lambda>tag. [])
      | _ \<Rightarrow> Inl (JsonUnmarshalTypeError (kind j) []))"

section \<open>The client (client.go)\<close>

subsection \<open>Data\<close>

record UploadLocalFileResponse =
  UploadUrl :: string

record TranscriptResponse =
  Id_str :: string
  Status :: string
  Text :: string
  Error :: string

record TranscriptDto =
  AudioUrl :: string

text \<open>Durations and clock readings are counted in nanoseconds, as \<^verbatim>\<open>time.Duration\<close> is.\<close>

record PollSettings =
  frequency :: int
  timeout :: int

record AssemblyAImpl =
  baseUrl :: string
  token :: string

record request =
  Method :: string
  URL :: string
  Header :: "(string \<times> string) list"
  Payload :: string

text \<open>\<open>Body\<close> is what \<^verbatim>\<open>io.ReadAll(response.Body)\<close> gives: the bytes, or a read error.\<close>

record response =
  StatusCode :: int
  Body :: "error + string"

text \<open>
  What the model takes from the Go library without modelling it:
  \<^item> \<open>NewRequest\<close>: the error of \<^verbatim>\<open>http.NewRequest\<close> for a method and a URL, if any;
  \<^item> \<open>json_parse\<close>: the JSON parser, from a body to a syntax error or a JSON value;
  \<^item> \<open>json_Marshal\<close>: \<^verbatim>\<open>json.Marshal\<close> of the submit payload;
  \<^item> \<open>Duration_String\<close>: the text of a duration (\<^verbatim>\<open>%s\<close> of a \<^verbatim>\<open>time.Duration\<close>).
\<close>

record env =
  NewRequest :: "string \<Rightarrow> string \<Rightarrow> error option"
  json_parse :: "string \<Rightarrow> string + json"
  json_Marshal :: "TranscriptDto \<Rightarrow> error + string"
  Duration_String :: "int \<Rightarrow> string"

definition Unmarshal_struct :: "env \<Rightarrow> string list \<Rightarrow> string \<Rightarrow> error + (string \<Rightarrow> string)" where
  "Unmarshal_struct E tags body =
     (case json_parse E body of
        Inl msg \<Rightarrow> Inl (JsonSyntaxError msg)
      | Inr j \<Rightarrow> decode_struct tags j)"

definition Unmarshal_UploadLocalFileResponse :: "env \<Rightarrow> string \<Rightarrow> error + UploadLocalFileResponse" where
  "Unmarshal_UploadLocalFileResponse E body =
     (case Unmarshal_struct E [''upload_url''] body of
        Inl e \<Rightarrow> Inl e
      | Inr vals \<Rightarrow> Inr \<lparr>UploadUrl = vals ''upload_url''\<rparr>)"

definition Unmarshal_TranscriptResponse :: "env \<Rightarrow> string \<Rightarrow> error + TranscriptResponse" where
  "Unmarshal_TranscriptResponse E body =
     (case Unmarshal_struct E [''id'', ''status'', ''text'', ''error''] body of
        Inl e \<Rightarrow> Inl e
      | Inr vals \<Rightarrow>
          Inr \<lparr>Id_str = vals ''id'', Status = vals ''status'', Text = vals ''text'',
               Error = vals ''error''\<rparr>)"

subsection \<open>\<open>getBody\<close> and \<open>getData\<close> (lines 52-76)\<close>

definition getBody :: "response \<Rightarrow> error + string" where
  "getBody resp = (case Body resp of Inl err \<Rightarrow> Inl err | Inr body \<Rightarrow> Inr body)"

text \<open>
  \<^verbatim>\<open>getData[T]\<close> is generic in the payload type; the model takes \<^verbatim>\<open>json.Unmarshal\<close> at
  that type as its first argument.
\<close>

definition getData :: "(string \<Rightarrow> error + 'a) \<Rightarrow> response \<Rightarrow> error + 'a" where
  "getData unmarshal resp =
     (case getBody resp of
        Inl err \<Rightarrow> Inl err
      | Inr body \<Rightarrow>
          if \<not> isValidStatus (StatusCode resp) then Inl (Errorf body)
          else (case unmarshal body of Inl err \<Rightarrow> Inl err | Inr data \<Rightarrow> Inr data))"

subsection \<open>\<open>UploadLocalFile\<close> (lines 84-102)\<close>

text \<open>
  An operation returns the pair of Go: a string and an error, \<open>None\<close> for \<^verbatim>\<open>nil\<close>.
  \<open>Do\<close> is the transport, \<^verbatim>\<open>client.Do(req)\<close>: a response or an error for a request.
  Header names are kept as the source writes them.
\<close>

definition UploadLocalFile ::
  "env \<Rightarrow> (request \<Rightarrow> error + response) \<Rightarrow> AssemblyAImpl \<Rightarrow> string \<Rightarrow> string \<times> error option" where
  "UploadLocalFile E Do client content =
     (case NewRequest E ''POST'' (baseUrl client @ ''/upload'') of
        Some err \<Rightarrow> ([], Some err)
      | None \<Rightarrow>
          let req = \<lparr>Method = ''POST'', URL = baseUrl client @ ''/upload'',
                     Header = [(''Content-Type'', ''application/json''),
                               (''authorization'', token client),
                               (''transfer-encoding'', ''chunked'')],
                     Payload = content\<rparr>
          in (case Do req of
                Inl err \<Rightarrow> ([], Some err)
              | Inr resp \<Rightarrow>
                  (case getData (Unmarshal_UploadLocalFileResponse E) resp of
                     Inl err \<Rightarrow> ([], Some err)
                   | Inr data \<Rightarrow> (UploadUrl data, None))))"

subsection \<open>\<open>Transcript\<close> (lines 168-196)\<close>

definition Transcript ::
  "env \<Rightarrow> (request \<Rightarrow> error + response) \<Rightarrow> AssemblyAImpl \<Rightarrow> string \<Rightarrow> string \<times> error option" where
  "Transcript E Do client audioUrl =
     (case json_Marshal E \<lparr>AudioUrl = audioUrl\<rparr> of
        Inl err \<Rightarrow> ([], Some err)
      | Inr body \<Rightarrow>
          (case NewRequest E ''POST'' (baseUrl client @ ''/transcript'') of
             Some err \<Rightarrow> ([], Some err)
           | None \<Rightarrow>
               let req = \<lparr>Method = ''POST'', URL = baseUrl client @ ''/transcript'',
                          Header = [(''Content-Type'', ''application/json''),
                                    (''authorization'', token client)],
                          Payload = body\<rparr>
               in (case Do req of
                     Inl err \<Rightarrow> ([], Some err)
                   | Inr resp \<Rightarrow>
                       (case getData (Unmarshal_TranscriptResponse E) resp of
                          Inl err \<Rightarrow> ([], Some err)
                        | Inr data \<Rightarrow>
                            if Id_str data = [] then ([], Some (ErrorString ''response did not include an id''))
                            else if Status data = ''error'' then ([], Some (ErrorString (Error data)))
                            else (Id_str data, None)))))"

subsection \<open>\<open>PollTranscript\<close> (lines 129-160)\<close>

text \<open>
  The poll loop reads the clock, sends requests and sleeps. Its world is the clock, the
  requests sent so far and the sleeps made so far; the server and the network are a script
  of round trips, one for each \<^verbatim>\<open>client.Do\<close>: the time it takes and what it returns. A
  script that ends while the loop still runs gives \<open>None\<close>: the model says nothing of what
  happens next. \<^verbatim>\<open>time.Sleep(d)\<close> returns at once for \<open>d \<le> 0\<close>; any oversleep counts into
  the next round trip. The timeout error is \<^verbatim>\<open>fmt.Errorf\<close> of a constant format ending
  in \<^verbatim>\<open>%s\<close> with the timeout as its operand: the text before the verb, then the text of
  the duration.
\<close>

record world =
  clock :: int
  requests :: "request list"
  sleeps :: "int list"

record round_trip =
  latency :: int
  outcome :: "error + response"

definition Sleep :: "int \<Rightarrow> world \<Rightarrow> world" where
  "Sleep d w = w\<lparr>clock := clock w + max d 0, sleeps := sleeps w @ [d]\<rparr>"

definition Do_scripted :: "request \<Rightarrow> round_trip \<Rightarrow> world \<Rightarrow> world" where
  "Do_scripted req rt w = w\<lparr>clock := clock w + latency rt, requests := requests w @ [req]\<rparr>"

definition timeout_error :: "env \<Rightarrow> PollSettings \<Rightarrow> error" where
  "timeout_error E pollSettings =
     ErrorString (''timeout, transcription not finished in '' @ Duration_String E (timeout pollSettings))"

fun poll_loop ::
  "env \<Rightarrow> request \<Rightarrow> PollSettings \<Rightarrow> int \<Rightarrow> round_trip list \<Rightarrow> world \<Rightarrow>
   ((string \<times> error option) \<times> world) option" where
  "poll_loop E req pollSettings timeoutTime [] w =
     (if clock w < timeoutTime then None
      else Some (([], Some (timeout_error E pollSettings)), w))"
| "poll_loop E req pollSettings timeoutTime (rt # script) w =
     (if clock w < timeoutTime then
        (let w1 = Do_scripted req rt w in
         case outcome rt of
           Inl err \<Rightarrow> Some (([], Some err), w1)
         | Inr resp \<Rightarrow>
             (case getData (Unmarshal_TranscriptResponse E) resp of
                Inl err \<Rightarrow> Some (([], Some err), w1)
              | Inr data \<Rightarrow>
                  if Status data = ''error'' then Some (([], Some (ErrorString (Error data))), w1)
                  else if Status data = ''completed'' then Some ((Text data, None), w1)
                  else if Status data = ''queued''
                  then poll_loop E req pollSettings timeoutTime script (Sleep (frequency pollSettings) w1)
                  else poll_loop E req pollSettings timeoutTime script w1))
      else Some (([], Some (timeout_error E pollSettings)), w))"

definition default_PollSettings :: PollSettings where
  "default_PollSettings = \<lparr>frequency = 5 * 1000000000, timeout = 60 * 1000000000\<rparr>"

definition PollTranscript ::
  "env \<Rightarrow> AssemblyAImpl \<Rightarrow> string \<Rightarrow> PollSettings option \<Rightarrow> round_trip list \<Rightarrow> world \<Rightarrow>
   ((string \<times> error option) \<times> world) option" where
  "PollTranscript E client jobId settings script w =
     (let pollSettings = (case settings of None \<Rightarrow> default_PollSettings | Some given \<Rightarrow> given);
          url = baseUrl client @ ''/transcript/'' @ jobId
      in case NewRequest E ''GET'' url of
           Some err \<Rightarrow> Some (([], Some err), w)
         | None \<Rightarrow>
             poll_loop E \<lparr>Method = ''GET'', URL = url, Header = [(''authorization'', token client)],
                           Payload = []\<rparr>
               pollSettings (clock w + timeout pollSettings) script w)"


section \<open>Notions the properties are stated with\<close>

text \<open>The check the specification offers as an equivalent: the code lies in [200,300).\<close>

definition status_in_200_300 :: "int \<Rightarrow> bool" where
  "status_in_200_300 statusCode = (200 \<le> statusCode \<and> statusCode < 300)"

text \<open>A decode error: an error of \<^verbatim>\<open>json.Unmarshal\<close>.\<close>

definition is_decode_error :: "error \<Rightarrow> bool" where
  "is_decode_error e =
     (case e of JsonSyntaxError msg \<Rightarrow> True | JsonUnmarshalTypeError k f \<Rightarrow> True | _ \<Rightarrow> False)"

text \<open>
  A round trip leaves the job pending when it returns a response that the decoder accepts
  and whose status is not terminal. \<open>elapsed\<close> is the time one iteration of the poll loop
  takes on such a round trip: the round trip, and the sleep where the loop sleeps.
\<close>

definition pending :: "env \<Rightarrow> round_trip \<Rightarrow> bool" where
  "pending E rt =
     (case outcome rt of
        Inl err \<Rightarrow> False
      | Inr resp \<Rightarrow>
          (case getData (Unmarshal_TranscriptResponse E) resp of
             Inl err \<Rightarrow> False
           | Inr data \<Rightarrow> Status data \<noteq> ''error'' \<and> Status data \<noteq> ''completed''))"

definition elapsed :: "env \<Rightarrow> PollSettings \<Rightarrow> round_trip \<Rightarrow> int" where
  "elapsed E pollSettings rt =
     latency rt +
     (case outcome rt of
        Inl err \<Rightarrow> 0
      | Inr resp \<Rightarrow>
          (case getData (Unmarshal_TranscriptResponse E) resp of
             Inl err \<Rightarrow> 0
           | Inr data \<Rightarrow> if Status data = ''queued'' then max (frequency pollSettings) 0 else 0))"

section \<open>A test double of the library, and the bodies of the instances\<close>

text \<open>
  The instances below run the client against fixed bodies, as client_test.go does against
  its test server. \<open>example_parse\<close> stands for the JSON parser on these bodies: it gives
  the value each of them denotes, and a syntax error for any other text. The test double
  builds every request, and knows the text of the two durations the instances use.
\<close>

definition body_empty_object :: string where
  \<open>body_empty_object = ''{}''\<close>

definition body_message :: string where
  \<open>body_message = ''{"message": "stored"}''\<close>

definition body_queued :: string where
  \<open>body_queued = ''{"id": "5551722", "status": "queued", "text": "null"}''\<close>

definition body_processing :: string where
  \<open>body_processing = ''{"id": "5551722", "status": "processing", "text": "null"}''\<close>

definition body_completed :: string where
  \<open>body_completed = ''{"id": "5551722", "status": "completed", "text": "You know"}''\<close>

definition body_error_no_id :: string where
  \<open>body_error_no_id = ''{"status": "error", "text": "null", "error": "boom"}''\<close>

definition example_parse :: "string \<Rightarrow> string + json" where
  "example_parse body =
     (if body = body_empty_object then Inr (JObject [])
      else if body = body_message then Inr (JObject [(''message'', JString ''stored'')])
      else if body = body_queued then
        Inr (JObject [(''id'', JString ''5551722''), (''status'', JString ''queued''),
                      (''text'', JString ''null'')])
      else if body = body_processing then
        Inr (JObject [(''id'', JString ''5551722''), (''status'', JString ''processing''),
                      (''text'', JString ''null'')])
      else if body = body_completed then
        Inr (JObject [(''id'', JString ''5551722''), (''status'', JString ''completed''),
                      (''text'', JString ''You know'')])
      else if body = body_error_no_id then
        Inr (JObject [(''status'', JString ''error''), (''text'', JString ''null''),
                      (''error'', JString ''boom'')])
      else Inl ''invalid character'')"

definition example_env :: env where
  \<open>example_env =
     \<lparr>NewRequest = (\<lambda>method url. None),
      json_parse = example_parse,
      json_Marshal = (\<lambda>dto. Inr (''{"audio_url":"'' @ AudioUrl dto @ ''"}'')),
      Duration_String =
        (\<lambda>d. if d = 1000000 then ''1ms'' else if d = 60000000000 then ''1m0s'' else ''?'')\<rparr>\<close>

definition example_client :: AssemblyAImpl where
  "example_client = \<lparr>baseUrl = ''http://127.0.0.1'', token = ''some-token''\<rparr>"

definition example_request :: request where
  "example_request =
     \<lparr>Method = ''GET'', URL = ''http://127.0.0.1/transcript/5551722'',
      Header = [(''authorization'', ''some-token'')], Payload = []\<rparr>"

definition ok_round_trip :: "string \<Rightarrow> round_trip" where
  "ok_round_trip body = \<lparr>latency = 1000000, outcome = Inr \<lparr>StatusCode = 200, Body = Inr body\<rparr>\<rparr>"

definition start_world :: world where
  "start_world = \<lparr>clock = 0, requests = [], sleeps = []\<rparr>"

section \<open>Facts about status validation\<close>

lemma below_10_cases: "(d::nat) < 10 \<Longrightarrow> d \<in> {0, 1, 2, 3, 4, 5, 6, 7, 8, 9}"
  by auto

lemma digit_char_eq_2: "d < 10 \<Longrightarrow> (digit_char d = CHR ''2'') = (d = 2)"
  by (drule below_10_cases) (auto simp: digit_char_def)

lemma digit_char_not_newline: "d < 10 \<Longrightarrow> digit_char d \<noteq> CHR 0x0A"
  by (drule below_10_cases) (auto simp: digit_char_def)

lemma digits10_one: "n < 10 \<Longrightarrow> digits10 n = [digit_char n]"
  by (subst digits10.simps) simp

lemma digits10_two:
  "10 \<le> n \<Longrightarrow> n < 100 \<Longrightarrow> digits10 n = [digit_char (n div 10), digit_char (n mod 10)]"
  by (subst digits10.simps) (simp add: digits10_one)

lemma digits10_three:
  "100 \<le> n \<Longrightarrow> n < 1000 \<Longrightarrow>
   digits10 n = [digit_char (n div 100), digit_char (n div 10 mod 10), digit_char (n mod 10)]"
proof -
  assume a: "100 \<le> n" "n < 1000"
  then have b: "10 \<le> n div 10" "n div 10 < 100" by auto
  have c: "n div 10 div 10 = n div 100" by (simp add: div_mult2_eq)
  show ?thesis
    using a by (subst digits10.simps) (simp add: digits10_two [OF b] c)
qed

lemma match_okStatus_nat:
  assumes "n < 1000"
  shows "match_here [Lit (CHR ''2''), AnyChar, AnyChar] (digits10 n) = (200 \<le> n \<and> n < 300)"
proof -
  consider "n < 10" | "10 \<le> n" "n < 100" | "100 \<le> n" "n < 1000"
    using assms by linarith
  then show ?thesis
  proof cases
    case 1
    then show ?thesis by (simp add: digits10_one)
  next
    case 2
    then show ?thesis by (simp add: digits10_two)
  next
    case 3
    then have d: "n div 100 < 10" "n div 10 mod 10 < 10" "n mod 10 < 10" by auto
    have e: "(n div 100 = 2) = (200 \<le> n \<and> n < 300)" by auto
    show ?thesis
      using 3 d by (simp add: digits10_three digit_char_eq_2 digit_char_not_newline e)
  qed
qed

lemma isValidStatus_below_1000:
  assumes "statusCode < 1000"
  shows "isValidStatus statusCode = (200 \<le> statusCode \<and> statusCode < 300)"
proof (cases "statusCode < 0")
  case True
  then show ?thesis
    by (simp add: isValidStatus_def MatchString_def okStatusRegex_def Itoa_def)
next
  case False
  then have "nat statusCode < 1000" using assms by simp
  from match_okStatus_nat [OF this] False show ?thesis
    by (auto simp: isValidStatus_def MatchString_def okStatusRegex_def Itoa_def)
qed

lemma isValidStatus_2xx: "200 \<le> statusCode \<Longrightarrow> statusCode < 300 \<Longrightarrow> isValidStatus statusCode"
  by (simp add: isValidStatus_below_1000)

lemma digits10_2000: "digits10 2000 = ''2000''"
  by (simp add: digits10.simps [of 2000] digits10.simps [of 200] digits10.simps [of 20]
      digits10.simps [of 2] digits10.simps [of 0] digit_char_def)

text \<open>
  C7 (as stated): for every integer status code, the regex-based validation returns true
  exactly when the code lies in [200,300). The pattern has no end anchor, so the decimal
  string of 2000 (a ''2'' followed by at least two characters) matches as well.
\<close>

theorem C7_regex_accepts_2000:
  "isValidStatus 2000 \<and> \<not> status_in_200_300 2000"
  by (simp add: isValidStatus_def MatchString_def okStatusRegex_def Itoa_def digits10_2000
      status_in_200_300_def)

text \<open>
  C7 (amended): for every integer status code below 1000, that is every code of at most
  three decimal digits and every negative one, the regex-based validation returns true
  exactly when the code lies in [200,300).
\<close>

theorem C7_regex_equiv_range_below_1000:
  "statusCode < 1000 \<Longrightarrow> isValidStatus statusCode = status_in_200_300 statusCode"
  by (simp add: isValidStatus_below_1000 status_in_200_300_def)

theorem C7_regex_equiv_range_below_1000_witness:
  "(204::int) < 1000 \<and> isValidStatus 204 = status_in_200_300 204 \<and> status_in_200_300 204"
  using C7_regex_equiv_range_below_1000 [of 204] by (simp add: status_in_200_300_def)

section \<open>Facts about the response decoder\<close>

lemma doPrintf_no_percent: "CHR ''%'' \<notin> set s \<Longrightarrow> doPrintf s = s"
  by (induction s) auto

lemma getData_read_error: "Body resp = Inl err \<Longrightarrow> getData unmarshal resp = Inl err"
  by (simp add: getData_def getBody_def)

lemma getData_invalid_status:
  "Body resp = Inr body \<Longrightarrow> \<not> isValidStatus (StatusCode resp) \<Longrightarrow>
   getData unmarshal resp = Inl (ErrorString (doPrintf body))"
  by (simp add: getData_def getBody_def Errorf_def)

lemma getData_valid_status:
  "Body resp = Inr body \<Longrightarrow> isValidStatus (StatusCode resp) \<Longrightarrow>
   getData unmarshal resp = unmarshal body"
  by (simp add: getData_def getBody_def split: sum.splits)

text \<open>
  What holds of the decoder: a body without a percent sign comes back verbatim as the
  message of the error for a rejected status code, and under an accepted status code the
  result is that of \<^verbatim>\<open>json.Unmarshal\<close>, whose errors are decode errors.
\<close>

lemma getData_invalid_status_verbatim:
  "Body resp = Inr body \<Longrightarrow> \<not> isValidStatus (StatusCode resp) \<Longrightarrow> CHR ''%'' \<notin> set body \<Longrightarrow>
   getData unmarshal resp = Inl (ErrorString body)"
  by (simp add: getData_invalid_status doPrintf_no_percent)

lemma object_members_saved:
  "object_members tags kvs vals saved = (vals', Some e) \<Longrightarrow>
   saved = Some e \<or> is_decode_error e"
proof (induction kvs arbitrary: vals saved)
  case Nil
  then show ?case by simp
next
  case (Cons kv kvs)
  obtain key v where kv: "kv = (key, v)" by (cases kv)
  show ?case
  proof (cases "find_field tags key")
    case None
    with Cons kv show ?thesis by simp
  next
    case (Some tag)
    show ?thesis
    proof (cases "(\<exists>s. v = JString s) \<or> v = JNull")
      case True
      with Cons kv Some show ?thesis by auto
    next
      case False
      with Cons.prems kv Some
      have "object_members tags kvs vals (saveError saved (JsonUnmarshalTypeError (kind v) tag))
              = (vals', Some e)"
        by (cases v) auto
      from Cons.IH [OF this] show ?thesis
        by (auto simp: saveError_def is_decode_error_def split: option.splits)
    qed
  qed
qed

lemma Unmarshal_struct_errors:
  "Unmarshal_struct E tags body = Inl err \<Longrightarrow> is_decode_error err"
  by (auto simp: Unmarshal_struct_def decode_struct_def is_decode_error_def
      split: sum.splits json.splits prod.splits option.splits dest: object_members_saved)

lemma Unmarshal_TranscriptResponse_errors:
  "Unmarshal_TranscriptResponse E body = Inl err \<Longrightarrow> is_decode_error err"
  by (auto simp: Unmarshal_TranscriptResponse_def split: sum.splits dest: Unmarshal_struct_errors)

lemma Unmarshal_UploadLocalFileResponse_errors:
  "Unmarshal_UploadLocalFileResponse E body = Inl err \<Longrightarrow> is_decode_error err"
  by (auto simp: Unmarshal_UploadLocalFileResponse_def split: sum.splits
      dest: Unmarshal_struct_errors)

lemma decode_struct_null: "decode_struct tags JNull = Inr (\<lambda>tag. [])"
  by (simp add: decode_struct_def)

lemma decode_struct_not_object:
  "j \<noteq> JNull \<Longrightarrow> \<forall>kvs. j \<noteq> JObject kvs \<Longrightarrow>
   decode_struct tags j = Inl (JsonUnmarshalTypeError (kind j) [])"
  by (cases j) (simp_all add: decode_struct_def)


lemma doPrintf_trailing_percent: "doPrintf ''disk usage at 100%'' = ''disk usage at 100%!(NOVERB)''"
  by code_simp

text \<open>
  C2: for every response with a non-2xx status code the decoder returns an error whose
  message is exactly the raw body, verbatim. The source passes the body to
  \<^verbatim>\<open>fmt.Errorf\<close> as the format string, so a percent sign in the body is read as the
  start of a formatting directive: the body \<^verbatim>\<open>disk usage at 100%\<close> under status 400
  comes back as \<^verbatim>\<open>disk usage at 100%!(NOVERB)\<close>.
\<close>

theorem C2_body_with_percent_is_rewritten:
  "getData unmarshal \<lparr>StatusCode = 400, Body = Inr ''disk usage at 100%''\<rparr>
     = Inl (ErrorString ''disk usage at 100%!(NOVERB)'')"
  by (simp add: getData_invalid_status isValidStatus_below_1000 doPrintf_trailing_percent
      del: doPrintf.simps)

section \<open>Facts about \<open>Transcript\<close> and \<open>UploadLocalFile\<close>\<close>

lemma getData_example:
  "example_parse body = Inr j \<Longrightarrow>
   getData (Unmarshal_TranscriptResponse example_env) \<lparr>StatusCode = 200, Body = Inr body\<rparr>
     = Unmarshal_TranscriptResponse example_env body"
  by (simp add: getData_valid_status isValidStatus_2xx)

lemma Unmarshal_example_queued:
  "Unmarshal_TranscriptResponse example_env body_queued
     = Inr \<lparr>Id_str = ''5551722'', Status = ''queued'', Text = ''null'', Error = []\<rparr>"
  by code_simp

lemma Unmarshal_example_processing:
  "Unmarshal_TranscriptResponse example_env body_processing
     = Inr \<lparr>Id_str = ''5551722'', Status = ''processing'', Text = ''null'', Error = []\<rparr>"
  by code_simp

lemma Unmarshal_example_completed:
  "Unmarshal_TranscriptResponse example_env body_completed
     = Inr \<lparr>Id_str = ''5551722'', Status = ''completed'', Text = ''You know'', Error = []\<rparr>"
  by code_simp

lemma Unmarshal_example_error_no_id:
  "Unmarshal_TranscriptResponse example_env body_error_no_id
     = Inr \<lparr>Id_str = [], Status = ''error'', Text = ''null'', Error = ''boom''\<rparr>"
  by code_simp

text \<open>
  C3: for every 2xx submit response that decodes, \<open>Transcript\<close> returns the id with no
  error exactly when the decoded id is not empty and the decoded status is not
  \<^verbatim>\<open>error\<close>; when the id is empty it returns the empty string and the error
  \<^verbatim>\<open>response did not include an id\<close>; otherwise, when the status is \<^verbatim>\<open>error\<close>, it
  returns the empty string and an error whose message is the error text of the service.
  The two failures are read in the order the sentence gives them.
\<close>

theorem C3_Transcript_outcomes:
  assumes "json_Marshal E \<lparr>AudioUrl = audioUrl\<rparr> = Inr payload"
    and "NewRequest E ''POST'' (baseUrl client @ ''/transcript'') = None"
    and "200 \<le> StatusCode resp" and "StatusCode resp < 300"
    and "Body resp = Inr body"
    and "Unmarshal_TranscriptResponse E body = Inr data"
  shows "(Transcript E (\<lambda>req. Inr resp) client audioUrl = (Id_str data, None)
            \<longleftrightarrow> Id_str data \<noteq> [] \<and> Status data \<noteq> ''error'')
       \<and> (Id_str data = [] \<longrightarrow>
            Transcript E (\<lambda>req. Inr resp) client audioUrl
              = ([], Some (ErrorString ''response did not include an id'')))
       \<and> (Id_str data \<noteq> [] \<and> Status data = ''error'' \<longrightarrow>
            Transcript E (\<lambda>req. Inr resp) client audioUrl = ([], Some (ErrorString (Error data))))"
  using assms
  by (auto simp: Transcript_def getData_valid_status isValidStatus_2xx)

theorem C3_Transcript_outcomes_witness:
  "Transcript example_env (\<lambda>req. Inr \<lparr>StatusCode = 200, Body = Inr body_completed\<rparr>)
     example_client ''https://some-url.com/some-id'' = (''5551722'', None)"
proof -
  have marshal: "json_Marshal example_env \<lparr>AudioUrl = ''https://some-url.com/some-id''\<rparr>
      = Inr ''{\"audio_url\":\"https://some-url.com/some-id\"}''"
    by (simp add: example_env_def)
  have request: "NewRequest example_env ''POST'' (baseUrl example_client @ ''/transcript'') = None"
    by (simp add: example_env_def)
  have status: "200 \<le> StatusCode \<lparr>StatusCode = 200, Body = Inr body_completed\<rparr>"
    "StatusCode \<lparr>StatusCode = 200, Body = Inr body_completed\<rparr> < 300"
    by simp_all
  have body: "Body \<lparr>StatusCode = 200, Body = Inr body_completed\<rparr> = Inr body_completed"
    by simp
  from C3_Transcript_outcomes [OF marshal request status body Unmarshal_example_completed]
  show ?thesis by simp
qed

text \<open>
  C9: for every 2xx submit response whose decoded id is empty and whose decoded status
  is \<^verbatim>\<open>error\<close>, \<open>Transcript\<close> returns the error \<^verbatim>\<open>response did not include an id\<close>,
  not the error text of the service: the id is checked before the status.
\<close>

theorem C9_empty_id_checked_first:
  assumes "json_Marshal E \<lparr>AudioUrl = audioUrl\<rparr> = Inr payload"
    and "NewRequest E ''POST'' (baseUrl client @ ''/transcript'') = None"
    and "200 \<le> StatusCode resp" and "StatusCode resp < 300"
    and "Body resp = Inr body"
    and "Unmarshal_TranscriptResponse E body = Inr data"
    and "Id_str data = []" and "Status data = ''error''"
  shows "Transcript E (\<lambda>req. Inr resp) client audioUrl
           = ([], Some (ErrorString ''response did not include an id''))"
  using assms by (simp add: Transcript_def getData_valid_status isValidStatus_2xx)

theorem C9_empty_id_checked_first_witness:
  "Transcript example_env (\<lambda>req. Inr \<lparr>StatusCode = 200, Body = Inr body_error_no_id\<rparr>)
     example_client ''https://some-url.com/some-id''
     = ([], Some (ErrorString ''response did not include an id''))
   \<and> Unmarshal_TranscriptResponse example_env body_error_no_id
     = Inr \<lparr>Id_str = [], Status = ''error'', Text = ''null'', Error = ''boom''\<rparr>"
proof -
  have marshal: "json_Marshal example_env \<lparr>AudioUrl = ''https://some-url.com/some-id''\<rparr>
      = Inr ''{\"audio_url\":\"https://some-url.com/some-id\"}''"
    by (simp add: example_env_def)
  have request: "NewRequest example_env ''POST'' (baseUrl example_client @ ''/transcript'') = None"
    by (simp add: example_env_def)
  have status: "200 \<le> StatusCode \<lparr>StatusCode = 200, Body = Inr body_error_no_id\<rparr>"
    "StatusCode \<lparr>StatusCode = 200, Body = Inr body_error_no_id\<rparr> < 300"
    by simp_all
  have body: "Body \<lparr>StatusCode = 200, Body = Inr body_error_no_id\<rparr> = Inr body_error_no_id"
    by simp
  from C9_empty_id_checked_first [OF marshal request status body Unmarshal_example_error_no_id]
  show ?thesis by (simp add: Unmarshal_example_error_no_id)
qed



section \<open>Facts about \<open>PollTranscript\<close>\<close>

subsection \<open>One iteration of the loop\<close>

lemma poll_loop_timed_out:
  "\<not> clock w < timeoutTime \<Longrightarrow>
   poll_loop E req ps timeoutTime script w = Some (([], Some (timeout_error E ps)), w)"
  by (cases script) simp_all

lemma PollTranscript_no_budget:
  "NewRequest E ''GET'' (baseUrl client @ ''/transcript/'' @ jobId) = None \<Longrightarrow>
   timeout pollSettings \<le> 0 \<Longrightarrow>
   PollTranscript E client jobId (Some pollSettings) script w
     = Some (([], Some (timeout_error E pollSettings)), w)"
  by (simp add: PollTranscript_def Let_def poll_loop_timed_out del: poll_loop.simps)

lemma poll_step_Do_error:
  "clock w < timeoutTime \<Longrightarrow> outcome rt = Inl err \<Longrightarrow>
   poll_loop E req ps timeoutTime (rt # script) w = Some (([], Some err), Do_scripted req rt w)"
  by simp


text \<open>
  The state machine of the loop, as the source has it: \<^verbatim>\<open>error\<close> and \<^verbatim>\<open>completed\<close>
  end the operation, \<^verbatim>\<open>queued\<close> sleeps and polls again, and any other status polls
  again at once, with no sleep.
\<close>

lemma poll_step_error:
  "clock w < timeoutTime \<Longrightarrow> outcome rt = Inr resp \<Longrightarrow>
   getData (Unmarshal_TranscriptResponse E) resp = Inr data \<Longrightarrow> Status data = ''error'' \<Longrightarrow>
   poll_loop E req ps timeoutTime (rt # script) w
     = Some (([], Some (ErrorString (Error data))), Do_scripted req rt w)"
  by simp

lemma poll_step_completed:
  "clock w < timeoutTime \<Longrightarrow> outcome rt = Inr resp \<Longrightarrow>
   getData (Unmarshal_TranscriptResponse E) resp = Inr data \<Longrightarrow> Status data = ''completed'' \<Longrightarrow>
   poll_loop E req ps timeoutTime (rt # script) w = Some ((Text data, None), Do_scripted req rt w)"
  by simp

lemma poll_step_queued:
  "clock w < timeoutTime \<Longrightarrow> outcome rt = Inr resp \<Longrightarrow>
   getData (Unmarshal_TranscriptResponse E) resp = Inr data \<Longrightarrow> Status data = ''queued'' \<Longrightarrow>
   poll_loop E req ps timeoutTime (rt # script) w
     = poll_loop E req ps timeoutTime script (Sleep (frequency ps) (Do_scripted req rt w))"
  by simp

lemma poll_step_other:
  "clock w < timeoutTime \<Longrightarrow> outcome rt = Inr resp \<Longrightarrow>
   getData (Unmarshal_TranscriptResponse E) resp = Inr data \<Longrightarrow>
   Status data \<noteq> ''error'' \<Longrightarrow> Status data \<noteq> ''completed'' \<Longrightarrow> Status data \<noteq> ''queued'' \<Longrightarrow>
   poll_loop E req ps timeoutTime (rt # script) w
     = poll_loop E req ps timeoutTime script (Do_scripted req rt w)"
  by simp

lemma getData_example_ok:
  "Unmarshal_TranscriptResponse example_env body = Inr data \<Longrightarrow>
   getData (Unmarshal_TranscriptResponse example_env) \<lparr>StatusCode = 200, Body = Inr body\<rparr> = Inr data"
  by (simp add: getData_valid_status isValidStatus_2xx)

lemma NewRequest_example: "NewRequest example_env method url = None"
  by (simp add: example_env_def)

lemma json_Marshal_example:
  "json_Marshal example_env dto = Inr (''{\"audio_url\":\"'' @ AudioUrl dto @ ''\"}'')"
  by (simp add: example_env_def)

lemma Duration_String_example: "Duration_String example_env 1000000 = ''1ms''"
  by (simp add: example_env_def)

lemmas getData_example_queued = getData_example_ok [OF Unmarshal_example_queued]
lemmas getData_example_processing = getData_example_ok [OF Unmarshal_example_processing]
lemmas getData_example_completed = getData_example_ok [OF Unmarshal_example_completed]

text \<open>
  C1: in every poll iteration the decoded status decides: \<^verbatim>\<open>error\<close> ends the operation
  with no text and the error text of the service, \<^verbatim>\<open>completed\<close> ends it with the
  transcribed text, and \<^verbatim>\<open>queued\<close> or any other status sleeps for the configured
  frequency before the next iteration. The source sleeps for \<^verbatim>\<open>queued\<close> only. Run with
  the default settings (a frequency of five seconds) against a job that is
  \<^verbatim>\<open>processing\<close> and then \<^verbatim>\<open>completed\<close>, each round trip taking a millisecond, the
  operation sends its second request right after the first: it ends after two
  milliseconds and has never slept.
\<close>

theorem C1_processing_is_polled_again_without_sleep:
  "PollTranscript example_env example_client ''5551722'' None
     [ok_round_trip body_processing, ok_round_trip body_completed] start_world
   = Some ((''You know'', None),
           \<lparr>clock = 2000000, requests = [example_request, example_request], sleeps = []\<rparr>)"
  by (simp add: PollTranscript_def Let_def default_PollSettings_def start_world_def
      ok_round_trip_def NewRequest_example getData_example_processing
      getData_example_completed Do_scripted_def example_client_def example_request_def)



subsection \<open>Whole runs\<close>

lemma poll_loop_all_pending:
  "list_all (pending E) script \<Longrightarrow> timeoutTime \<le> clock w + sum_list (map (elapsed E ps) script) \<Longrightarrow>
   \<exists>w'. poll_loop E req ps timeoutTime (script @ later) w
           = Some (([], Some (timeout_error E ps)), w')"
proof (induction script arbitrary: w)
  case Nil
  then show ?case by (simp add: poll_loop_timed_out del: poll_loop.simps)
next
  case (Cons rt script)
  show ?case
  proof (cases "clock w < timeoutTime")
    case False
    then show ?thesis by (simp add: poll_loop_timed_out del: poll_loop.simps)
  next
    case True
    from Cons.prems(1) obtain resp data where rt: "outcome rt = Inr resp"
      "getData (Unmarshal_TranscriptResponse E) resp = Inr data"
      "Status data \<noteq> ''error''" "Status data \<noteq> ''completed''"
      by (auto simp: pending_def split: sum.splits)
    from Cons.prems(1) have others: "list_all (pending E) script" by simp
    show ?thesis
    proof (cases "Status data = ''queued''")
      case q: True
      let ?w = "Sleep (frequency ps) (Do_scripted req rt w)"
      have "elapsed E ps rt = latency rt + max (frequency ps) 0"
        using rt q by (simp add: elapsed_def)
      then have "timeoutTime \<le> clock ?w + sum_list (map (elapsed E ps) script)"
        using Cons.prems(2) by (simp add: Sleep_def Do_scripted_def)
      from Cons.IH [OF others this] show ?thesis
        using True rt q by (simp add: poll_step_queued del: poll_loop.simps)
    next
      case nq: False
      let ?w = "Do_scripted req rt w"
      have "elapsed E ps rt = latency rt"
        using rt nq by (simp add: elapsed_def)
      then have "timeoutTime \<le> clock ?w + sum_list (map (elapsed E ps) script)"
        using Cons.prems(2) by (simp add: Do_scripted_def)
      from Cons.IH [OF others this] show ?thesis
        using True rt nq by (simp add: poll_step_other del: poll_loop.simps)
    qed
  qed
qed

text \<open>
  C5: in every run of \<open>PollTranscript\<close> in which the deadline, the start plus the timeout,
  passes while every round trip made has left the job pending (a response the decoder
  accepts, with a status that is neither \<^verbatim>\<open>completed\<close> nor \<^verbatim>\<open>error\<close>), the operation
  returns the empty string and the error whose message is
  \<^verbatim>\<open>timeout, transcription not finished in\<close> followed by the text of the configured
  timeout. The deadline passes when the iterations on \<open>script\<close> take the timeout or
  longer; whatever the server would answer later plays no part.
\<close>

theorem C5_timeout_error_names_the_timeout:
  assumes "NewRequest E ''GET'' (baseUrl client @ ''/transcript/'' @ jobId) = None"
    and "pollSettings = (case settings of None \<Rightarrow> default_PollSettings | Some given \<Rightarrow> given)"
    and "list_all (pending E) script"
    and "timeout pollSettings \<le> sum_list (map (elapsed E pollSettings) script)"
  shows "\<exists>w'. PollTranscript E client jobId settings (script @ later) w
           = Some (([], Some (ErrorString (''timeout, transcription not finished in ''
                                            @ Duration_String E (timeout pollSettings)))), w')"
proof -
  have "clock w + timeout pollSettings \<le> clock w + sum_list (map (elapsed E pollSettings) script)"
    using assms(4) by simp
  from poll_loop_all_pending [OF assms(3) this] assms(1,2) show ?thesis
    by (simp add: PollTranscript_def timeout_error_def Let_def del: poll_loop.simps)
qed

lemma pending_example_queued: "pending example_env (ok_round_trip body_queued)"
  by (simp add: pending_def ok_round_trip_def getData_example_queued)

lemma elapsed_example_queued:
  "elapsed example_env \<lparr>frequency = 0, timeout = 1000000\<rparr> (ok_round_trip body_queued) = 1000000"
  by (simp add: elapsed_def ok_round_trip_def getData_example_queued)

theorem C5_timeout_error_names_the_timeout_witness:
  "\<exists>w'. PollTranscript example_env example_client ''5551722''
           (Some \<lparr>frequency = 0, timeout = 1000000\<rparr>)
           ([ok_round_trip body_queued] @ [ok_round_trip body_queued]) start_world
         = Some (([], Some (ErrorString ''timeout, transcription not finished in 1ms'')), w')"
proof -
  let ?ps = "\<lparr>frequency = 0, timeout = 1000000\<rparr>"
  have request: "NewRequest example_env ''GET'' (baseUrl example_client @ ''/transcript/'' @ ''5551722'')
      = None"
    by (simp add: example_env_def)
  have settings: "?ps = (case Some ?ps of None \<Rightarrow> default_PollSettings | Some given \<Rightarrow> given)"
    by simp
  have all_pending: "list_all (pending example_env) [ok_round_trip body_queued]"
    by (simp add: pending_example_queued)
  have late: "timeout ?ps \<le> sum_list (map (elapsed example_env ?ps) [ok_round_trip body_queued])"
    by (simp add: elapsed_example_queued)
  from C5_timeout_error_names_the_timeout [OF request settings all_pending late,
      of "[ok_round_trip body_queued]" start_world]
  show ?thesis by (simp add: example_env_def)
qed

text \<open>
  C6: for the responses queued, queued, completed with text \<open>T\<close> and a frequency of 0,
  \<open>PollTranscript\<close> returns \<open>T\<close> and no error after exactly two sleeps (and three
  requests). For these three responses to be received, the deadline must not have passed
  when the loop reads the clock before each request: that is what the last three
  assumptions say.
\<close>

theorem C6_two_sleeps_then_the_text:
  assumes "NewRequest E ''GET'' (baseUrl client @ ''/transcript/'' @ jobId) = None"
    and "outcome rt1 = Inr resp1" and "getData (Unmarshal_TranscriptResponse E) resp1 = Inr d1"
    and "Status d1 = ''queued''"
    and "outcome rt2 = Inr resp2" and "getData (Unmarshal_TranscriptResponse E) resp2 = Inr d2"
    and "Status d2 = ''queued''"
    and "outcome rt3 = Inr resp3" and "getData (Unmarshal_TranscriptResponse E) resp3 = Inr d3"
    and "Status d3 = ''completed''" and "Text d3 = T"
    and "frequency pollSettings = 0"
    and "0 < timeout pollSettings"
    and "latency rt1 < timeout pollSettings"
    and "latency rt1 + latency rt2 < timeout pollSettings"
  shows "\<exists>w'. PollTranscript E client jobId (Some pollSettings) [rt1, rt2, rt3] w
                 = Some ((T, None), w')
           \<and> sleeps w' = sleeps w @ [0, 0]
           \<and> length (requests w') = length (requests w) + 3"
  using assms
  by (simp add: PollTranscript_def Sleep_def Do_scripted_def Let_def)

theorem C6_two_sleeps_then_the_text_witness:
  "\<exists>w'. PollTranscript example_env example_client ''5551722''
           (Some \<lparr>frequency = 0, timeout = 60000000000\<rparr>)
           [ok_round_trip body_queued, ok_round_trip body_queued, ok_round_trip body_completed]
           start_world
         = Some ((''You know'', None), w')
     \<and> sleeps w' = sleeps start_world @ [0, 0]
     \<and> length (requests w') = length (requests start_world) + 3"
proof -
  let ?ps = "\<lparr>frequency = 0, timeout = 60000000000\<rparr>"
  let ?resp = "\<lambda>body. \<lparr>StatusCode = 200, Body = Inr body\<rparr>"
  have request: "NewRequest example_env ''GET'' (baseUrl example_client @ ''/transcript/'' @ ''5551722'')
      = None"
    by (simp add: example_env_def)
  have sent1: "outcome (ok_round_trip body_queued) = Inr (?resp body_queued)"
    and sent3: "outcome (ok_round_trip body_completed) = Inr (?resp body_completed)"
    by (simp_all add: ok_round_trip_def)
  have budget: "frequency ?ps = 0" "0 < timeout ?ps"
    "latency (ok_round_trip body_queued) < timeout ?ps"
    "latency (ok_round_trip body_queued) + latency (ok_round_trip body_queued) < timeout ?ps"
    by (simp_all add: ok_round_trip_def)
  have status: "Status \<lparr>Id_str = ''5551722'', Status = ''queued'', Text = ''null'', Error = []\<rparr>
      = ''queued''"
    "Status \<lparr>Id_str = ''5551722'', Status = ''completed'', Text = ''You know'', Error = []\<rparr>
      = ''completed''"
    "Text \<lparr>Id_str = ''5551722'', Status = ''completed'', Text = ''You know'', Error = []\<rparr>
      = ''You know''"
    by simp_all
  from C6_two_sleeps_then_the_text [OF request
      sent1 getData_example_queued status(1)
      sent1 getData_example_queued status(1)
      sent3 getData_example_completed status(2) status(3) budget, of start_world]
  show ?thesis .
qed

section \<open>No text beside an error\<close>

lemma poll_loop_error_empty:
  "poll_loop E req ps timeoutTime script w = Some (r, w') \<Longrightarrow> snd r \<noteq> None \<Longrightarrow> fst r = []"
proof (induction script arbitrary: w)
  case Nil
  then show ?case by (auto split: if_splits)
next
  case (Cons rt script)
  then show ?case
    by (auto simp: Let_def split: if_splits sum.splits)
qed

text \<open>
  C8: for each of the three operations and every input, whenever the operation returns an
  error, the string beside it is empty. (For \<open>PollTranscript\<close>: whenever it returns.)
\<close>

theorem C8_error_means_empty_string:
  "(snd (UploadLocalFile E Do client content) \<noteq> None
      \<longrightarrow> fst (UploadLocalFile E Do client content) = [])
   \<and> (snd (Transcript E Do' client audioUrl) \<noteq> None
      \<longrightarrow> fst (Transcript E Do' client audioUrl) = [])
   \<and> (\<forall>r w'. PollTranscript E client jobId settings script w = Some (r, w')
      \<longrightarrow> snd r \<noteq> None \<longrightarrow> fst r = [])"
proof (intro conjI allI impI)
  assume "snd (UploadLocalFile E Do client content) \<noteq> None"
  then show "fst (UploadLocalFile E Do client content) = []"
    by (auto simp: UploadLocalFile_def Let_def split: option.splits sum.splits)
next
  assume "snd (Transcript E Do' client audioUrl) \<noteq> None"
  then show "fst (Transcript E Do' client audioUrl) = []"
    by (auto simp: Transcript_def Let_def split: option.splits sum.splits if_splits)
next
  fix r w'
  assume "PollTranscript E client jobId settings script w = Some (r, w')" "snd r \<noteq> None"
  then show "fst r = []"
    by (auto simp: PollTranscript_def Let_def split: option.splits dest: poll_loop_error_empty)
qed

theorem C8_error_means_empty_string_witness:
  "snd (UploadLocalFile example_env (\<lambda>req. Inr \<lparr>StatusCode = 400, Body = Inr body_empty_object\<rparr>)
          example_client []) = Some (ErrorString body_empty_object)
   \<and> fst (UploadLocalFile example_env (\<lambda>req. Inr \<lparr>StatusCode = 400, Body = Inr body_empty_object\<rparr>)
          example_client []) = []
   \<and> snd (Transcript example_env (\<lambda>req. Inr \<lparr>StatusCode = 200, Body = Inr body_error_no_id\<rparr>)
          example_client ''https://some-url.com/some-id'')
       = Some (ErrorString ''response did not include an id'')
   \<and> fst (Transcript example_env (\<lambda>req. Inr \<lparr>StatusCode = 200, Body = Inr body_error_no_id\<rparr>)
          example_client ''https://some-url.com/some-id'') = []
   \<and> PollTranscript example_env example_client ''5551722'' (Some \<lparr>frequency = 0, timeout = 1000000\<rparr>)
         [ok_round_trip body_queued] start_world
       = Some (([], Some (ErrorString ''timeout, transcription not finished in 1ms'')),
               \<lparr>clock = 1000000, requests = [example_request], sleeps = [0]\<rparr>)"
proof -
  let ?up = "UploadLocalFile example_env
      (\<lambda>req. Inr \<lparr>StatusCode = 400, Body = Inr body_empty_object\<rparr>) example_client []"
  let ?tr = "Transcript example_env
      (\<lambda>req. Inr \<lparr>StatusCode = 200, Body = Inr body_error_no_id\<rparr>) example_client
      ''https://some-url.com/some-id''"
  let ?ps = "\<lparr>frequency = 0, timeout = 1000000\<rparr>"
  let ?w = "\<lparr>clock = 1000000, requests = [example_request], sleeps = [0]\<rparr>"
  have up: "snd ?up = Some (ErrorString body_empty_object)"
    by (simp add: UploadLocalFile_def NewRequest_example getData_invalid_status_verbatim
        isValidStatus_below_1000 body_empty_object_def)
  have tr: "snd ?tr = Some (ErrorString ''response did not include an id'')"
    by (simp add: Transcript_def NewRequest_example getData_valid_status isValidStatus_2xx
        Unmarshal_example_error_no_id json_Marshal_example)
  have poll: "PollTranscript example_env example_client ''5551722'' (Some ?ps)
      [ok_round_trip body_queued] start_world
      = Some (([], Some (ErrorString ''timeout, transcription not finished in 1ms'')), ?w)"
    by (simp add: PollTranscript_def Let_def NewRequest_example start_world_def ok_round_trip_def
        getData_example_queued Do_scripted_def Sleep_def timeout_error_def example_client_def
        example_request_def Duration_String_example)
  from C8_error_means_empty_string [of example_env
      "\<lambda>req. Inr \<lparr>StatusCode = 400, Body = Inr body_empty_object\<rparr>" example_client "[]"
      "\<lambda>req. Inr \<lparr>StatusCode = 200, Body = Inr body_error_no_id\<rparr>"
      "''https://some-url.com/some-id''" "''5551722''" "Some ?ps" "[ok_round_trip body_queued]"
      start_world] up tr poll
  show ?thesis by simp
qed

end
